theory Spec2Isabelle
  imports Main "HOL-Library.Word"
begin

unbundle bit_operations_syntax

section \<open>Data model of the PO60 notification decoder\<close>

text \<open>
  The source is a Python 3 script (it uses f-strings). A notification payload is a
  \<open>bytearray\<close>: a list of bytes, each an integer in 0..255. The integers the script
  computes from them are Python's unbounded ints.
\<close>

type_synonym byte = "8 word"

text \<open>The exceptions the modelled code can raise.\<close>

datatype error = IndexError | TypeError | ValueError

text \<open>
  \<open>extract_time\<close> returns a dict with the keys year, month, day, hour, minute, second;
  the dict comprehensions for \<open>spo2\<close> and \<open>pr\<close> have the keys max, min, avg.
\<close>

record timestamp =
  year :: int
  month :: int
  day :: int
  hour :: int
  minute :: int
  second :: int

record stats =
  smax :: int
  smin :: int
  savg :: int

text \<open>
  The dict returned by \<open>parse\<close> has the keys packet, end_time and spo2; the key pr is
  absent until \<open>handle_notification\<close> stores it, so it is an optional field.
\<close>

record measurement =
  packet :: int
  end_time :: timestamp
  spo2 :: stats
  pr :: "stats option"

text \<open>The calls of the logging module, in the order they are made.\<close>

datatype log_event =
    Debug_Received string
  | Warning_Invalid_Packet
  | Info_Pulse_Rate_Updated stats
  | Warning_PR_Incomplete
  | Info_Latest_Measurement int stats "stats option"
  | Info_No_Measurements

text \<open>
  The module's global lists \<open>measurements\<close> and \<open>raw_data\<close>, and the log. The state
  is passed explicitly and returned updated, also when an exception is raised: what was
  appended before the raise stays appended.
\<close>

record state =
  measurements :: "measurement list"
  raw_data :: "string list"
  log :: "log_event list"

definition init_state :: state where
  "init_state = \<lparr>measurements = [], raw_data = [], log = []\<rparr>"

definition logging :: "log_event \<Rightarrow> state \<Rightarrow> state" where
  "logging ev st = st\<lparr>log := log st @ [ev]\<rparr>"

definition MIN_PACKET_LENGTH :: nat where
  "MIN_PACKET_LENGTH = 23"

section \<open>Python primitives used by the script\<close>

text \<open>\<open>data[i]\<close> for a non-negative index: IndexError out of range.\<close>

definition index_bytes :: "byte list \<Rightarrow> nat \<Rightarrow> error + byte" where
  "index_bytes data i = (if i < length data then Inr (data ! i) else Inl IndexError)"

text \<open>\<open>data[lo:hi]\<close> for non-negative bounds: a slice never raises, it is cut short.\<close>

definition slice :: "nat \<Rightarrow> nat \<Rightarrow> 'a list \<Rightarrow> 'a list" where
  "slice lo hi xs = take (hi - lo) (drop lo xs)"

text \<open>Sequencing of computations that may raise.\<close>

fun bind_err :: "error + 'a \<Rightarrow> ('a \<Rightarrow> error + 'b) \<Rightarrow> error + 'b" where
  "bind_err (Inl e) f = Inl e"
| "bind_err (Inr x) f = f x"

text \<open>\<open>b & mask\<close> on a byte value, as a Python int.\<close>

definition masked :: "byte \<Rightarrow> byte \<Rightarrow> int" where
  "masked b m = uint (b AND m)"

text \<open>\<open>data.hex()\<close>: two lowercase hexadecimal digits for each byte.\<close>

definition hex_digit :: "nat \<Rightarrow> char" where
  "hex_digit n = ''0123456789abcdef'' ! n"

definition hex_byte :: "byte \<Rightarrow> string" where
  "hex_byte b = [hex_digit (unat b div 16), hex_digit (unat b mod 16)]"

definition hex :: "byte list \<Rightarrow> string" where
  "hex data = concat (map hex_byte data)"

text \<open>
  \<open>max(iterable, key=f)\<close> as CPython computes it: ValueError on an empty iterable; the
  first item is the running maximum, and every later item replaces it when
  \<open>key(item) > key(maximum)\<close>. The comparison is a parameter, since it may raise. A
  one-element iterable is returned with no comparison made.
\<close>

fun max_loop :: "('k \<Rightarrow> 'k \<Rightarrow> error + bool) \<Rightarrow> ('a \<Rightarrow> 'k) \<Rightarrow> 'a \<Rightarrow> 'a list \<Rightarrow> error + 'a" where
  "max_loop gt key best [] = Inr best"
| "max_loop gt key best (x # xs) =
     (case gt (key x) (key best) of
        Inl e \<Rightarrow> Inl e
      | Inr c \<Rightarrow> max_loop gt key (if c then x else best) xs)"

definition py_max :: "('k \<Rightarrow> 'k \<Rightarrow> error + bool) \<Rightarrow> ('a \<Rightarrow> 'k) \<Rightarrow> 'a list \<Rightarrow> error + 'a" where
  "py_max gt key xs = (case xs of [] \<Rightarrow> Inl ValueError | x # rest \<Rightarrow> max_loop gt key x rest)"

text \<open>
  \<open>a > b\<close> on two dicts: Python 3 defines no ordering on dicts, the comparison raises
  TypeError whatever the dicts hold.
\<close>

definition dict_gt :: "timestamp \<Rightarrow> timestamp \<Rightarrow> error + bool" where
  "dict_gt a b = Inl TypeError"

section \<open>The functions of the script\<close>

text \<open>
  \<open>extract_time(data)\<close> reads \<open>data[0]\<close> to \<open>data[5]\<close>: IndexError when the argument
  has fewer than six bytes.
\<close>

fun extract_time :: "byte list \<Rightarrow> error + timestamp" where
  "extract_time (d0 # d1 # d2 # d3 # d4 # d5 # rest) =
     Inr \<lparr>year = 2000 + masked d0 0x7F,
          month = masked d1 0x0F,
          day = masked d2 0x1F,
          hour = masked d3 0x1F,
          minute = masked d4 0x3F,
          second = masked d5 0x3F\<rparr>"
| "extract_time _ = Inl IndexError"

text \<open>
  \<open>parse(data)\<close>: the guard is \<open>len(data) < MIN_PACKET_LENGTH or data[0] != 0xe9\<close>,
  where \<open>or\<close> does not evaluate \<open>data[0]\<close> when the length test holds; a rejected packet
  logs a warning and gives None. The fields are then read in the order of the dict
  display.
\<close>

definition parse :: "byte list \<Rightarrow> state \<Rightarrow> (error + measurement option) \<times> state" where
  "parse data st =
     (if length data < MIN_PACKET_LENGTH \<or> data ! 0 \<noteq> 0xE9
      then (Inr None, logging Warning_Invalid_Packet st)
      else
        (bind_err (index_bytes data 1) (\<lambda>b1.
         bind_err (extract_time (slice 8 14 data)) (\<lambda>t.
         bind_err (index_bytes data 17) (\<lambda>b17.
         bind_err (index_bytes data 18) (\<lambda>b18.
         bind_err (index_bytes data 19) (\<lambda>b19.
           Inr (Some \<lparr>packet = masked b1 0x0F,
                      end_time = t,
                      spo2 = \<lparr>smax = masked b17 0x7F, smin = masked b18 0x7F, savg = masked b19 0x7F\<rparr>,
                      pr = None\<rparr>)))))),
         st))"

text \<open>
  The body of the \<open>try\<close> in \<open>handle_notification\<close>: the dict of the three masked bytes
  is built first, then stored under the key pr of \<open>measurements[-1]\<close>. It gives the new
  list and the stored dict.
\<close>

definition attach_pr :: "byte list \<Rightarrow> measurement list \<Rightarrow> error + (measurement list \<times> stats)" where
  "attach_pr data ms =
     bind_err (index_bytes data 0) (\<lambda>b0.
     bind_err (index_bytes data 1) (\<lambda>b1.
     bind_err (index_bytes data 2) (\<lambda>b2.
       let v = \<lparr>smax = masked b0 0x7F, smin = masked b1 0x7F, savg = masked b2 0x7F\<rparr>
       in if ms = [] then Inl IndexError
          else Inr (butlast ms @ [(last ms)\<lparr>pr := Some v\<rparr>], v))))"

text \<open>
  \<open>handle_notification(sender, data)\<close>. The payload is logged and recorded first. The
  test \<open>data[0] == 0xe9\<close> is outside the \<open>try\<close>, so its IndexError leaves the function.
  \<open>if measurement:\<close> holds for every dict \<open>parse\<close> returns (it is not empty). The
  \<open>except IndexError\<close> clause catches only that exception.
\<close>

definition handle_notification :: "byte list \<Rightarrow> state \<Rightarrow> (error + unit) \<times> state" where
  "handle_notification data st0 =
     (let hex_data = hex data;
          st1 = (logging (Debug_Received hex_data) st0)\<lparr>raw_data := raw_data st0 @ [hex_data]\<rparr>
      in case index_bytes data 0 of
           Inl e \<Rightarrow> (Inl e, st1)
         | Inr b0 \<Rightarrow>
             if b0 = 0xE9 then
               (case parse data st1 of
                  (Inl e, st2) \<Rightarrow> (Inl e, st2)
                | (Inr None, st2) \<Rightarrow> (Inr (), st2)
                | (Inr (Some m), st2) \<Rightarrow> (Inr (), st2\<lparr>measurements := measurements st2 @ [m]\<rparr>))
             else if measurements st1 \<noteq> [] \<and> 3 \<le> length data then
               (case attach_pr data (measurements st1) of
                  Inl IndexError \<Rightarrow> (Inr (), logging Warning_PR_Incomplete st1)
                | Inl e \<Rightarrow> (Inl e, st1)
                | Inr (ms, v) \<Rightarrow>
                    (Inr (), logging (Info_Pulse_Rate_Updated v) (st1\<lparr>measurements := ms\<rparr>)))
             else (Inr (), st1))"

text \<open>
  The notifications of a session, handled one after the other in arrival order. An
  exception that leaves the callback ends the run here, with the state reached.
\<close>

fun handle_notifications :: "byte list list \<Rightarrow> state \<Rightarrow> (error + unit) \<times> state" where
  "handle_notifications [] st = (Inr (), st)"
| "handle_notifications (d # ds) st =
     (case handle_notification d st of
        (Inl e, st') \<Rightarrow> (Inl e, st')
      | (Inr u, st') \<Rightarrow> handle_notifications ds st')"

text \<open>
  The end of \<open>main\<close> (lines 83 to 87): the latest measurement is
  \<open>max(measurements, key=lambda x: x['end_time'])\<close>, whose keys are dicts, and the
  result is logged; an empty list logs that no measurement was received.
\<close>

definition latest :: "measurement list \<Rightarrow> error + measurement" where
  "latest ms = py_max dict_gt end_time ms"

definition main_report :: "state \<Rightarrow> (error + unit) \<times> state" where
  "main_report st =
     (if measurements st \<noteq> [] then
        (case latest (measurements st) of
           Inl e \<Rightarrow> (Inl e, st)
         | Inr m \<Rightarrow> (Inr (), logging (Info_Latest_Measurement (packet m) (spo2 m) (pr m)) st))
      else (Inr (), logging Info_No_Measurements st))"

section \<open>Sample inputs\<close>

text \<open>
  A well-formed measurement packet of 23 bytes: marker 0xE9, packet number 1, end time
  2025-03-10 12:30:45 in bytes 8 to 13 and the SpO2 triple 98, 90, 94 in bytes 17 to 19.
\<close>

definition example_measurement :: "byte list" where
  "example_measurement =
     [0xE9, 0x01, 0, 0, 0, 0, 0, 0, 0x19, 0x03, 0x0A, 0x0C, 0x1E, 0x2D, 0, 0, 0,
      0x62, 0x5A, 0x5E, 0, 0, 0]"

text \<open>A session that already holds two measurements, both with a pulse rate.\<close>

definition example_session :: state where
  "example_session =
     \<lparr>measurements =
        [\<lparr>packet = 1,
          end_time = \<lparr>year = 2025, month = 3, day = 10, hour = 12, minute = 30, second = 45\<rparr>,
          spo2 = \<lparr>smax = 98, smin = 90, savg = 94\<rparr>,
          pr = Some \<lparr>smax = 80, smin = 64, savg = 70\<rparr>\<rparr>,
         \<lparr>packet = 2,
          end_time = \<lparr>year = 2025, month = 3, day = 10, hour = 12, minute = 31, second = 50\<rparr>,
          spo2 = \<lparr>smax = 97, smin = 91, savg = 95\<rparr>,
          pr = Some \<lparr>smax = 82, smin = 66, savg = 72\<rparr>\<rparr>],
      raw_data = [], log = []\<rparr>"

section \<open>What the functions compute\<close>

subsection \<open>Decoding\<close>

lemma extract_time_ok:
  "6 \<le> length xs \<Longrightarrow> extract_time xs =
     Inr \<lparr>year = 2000 + masked (xs ! 0) 0x7F, month = masked (xs ! 1) 0x0F,
          day = masked (xs ! 2) 0x1F, hour = masked (xs ! 3) 0x1F,
          minute = masked (xs ! 4) 0x3F, second = masked (xs ! 5) 0x3F\<rparr>"
  by (cases xs rule: extract_time.cases) auto

lemma slice_nth: "i < hi - lo \<Longrightarrow> hi \<le> length xs \<Longrightarrow> slice lo hi xs ! i = xs ! (lo + i)"
  by (simp add: slice_def)

lemma slice_length: "hi \<le> length xs \<Longrightarrow> length (slice lo hi xs) = hi - lo"
  by (simp add: slice_def)

text \<open>On a packet that passes the guard no index is out of range: \<open>parse\<close> returns the dict.\<close>

lemma parse_valid:
  assumes "MIN_PACKET_LENGTH \<le> length data" and "data ! 0 = 0xE9"
  shows "parse data st =
     (Inr (Some \<lparr>packet = masked (data ! 1) 0x0F,
                 end_time = \<lparr>year = 2000 + masked (data ! 8) 0x7F, month = masked (data ! 9) 0x0F,
                    day = masked (data ! 10) 0x1F, hour = masked (data ! 11) 0x1F,
                    minute = masked (data ! 12) 0x3F, second = masked (data ! 13) 0x3F\<rparr>,
                 spo2 = \<lparr>smax = masked (data ! 17) 0x7F, smin = masked (data ! 18) 0x7F,
                    savg = masked (data ! 19) 0x7F\<rparr>,
                 pr = None\<rparr>), st)"
proof -
  from assms have len: "23 \<le> length data" by (simp add: MIN_PACKET_LENGTH_def)
  then have "6 \<le> length (slice 8 14 data)" by (simp add: slice_length)
  from extract_time_ok [OF this] len
  have t: "extract_time (slice 8 14 data) =
     Inr \<lparr>year = 2000 + masked (data ! 8) 0x7F, month = masked (data ! 9) 0x0F,
          day = masked (data ! 10) 0x1F, hour = masked (data ! 11) 0x1F,
          minute = masked (data ! 12) 0x3F, second = masked (data ! 13) 0x3F\<rparr>"
    by (simp add: slice_nth)
  from len assms(2) show ?thesis
    by (simp add: parse_def MIN_PACKET_LENGTH_def index_bytes_def t)
qed

lemma parse_invalid:
  "length data < MIN_PACKET_LENGTH \<or> data ! 0 \<noteq> 0xE9 \<Longrightarrow>
   parse data st = (Inr None, logging Warning_Invalid_Packet st)"
  by (simp add: parse_def)

subsection \<open>The measurement list after one notification\<close>

text \<open>Every non-empty payload is handled without an exception.\<close>

lemma handle_notification_returns:
  "data \<noteq> [] \<Longrightarrow> fst (handle_notification data st) = Inr ()"
proof (cases "MIN_PACKET_LENGTH \<le> length data \<and> data ! 0 = 0xE9")
  case True
  then show ?thesis
    by (auto simp add: handle_notification_def index_bytes_def parse_valid Let_def
        MIN_PACKET_LENGTH_def)
next
  case False
  assume "data \<noteq> []"
  with False show ?thesis
    by (auto simp add: handle_notification_def index_bytes_def parse_invalid attach_pr_def Let_def)
qed

lemma measurements_marker_valid:
  assumes "MIN_PACKET_LENGTH \<le> length data" and "data ! 0 = 0xE9"
  shows "\<exists>m. fst (parse data st) = Inr (Some m) \<and> pr m = None \<and>
     measurements (snd (handle_notification data st)) = measurements st @ [m]"
  using assms
  by (auto simp add: handle_notification_def index_bytes_def parse_valid Let_def
      MIN_PACKET_LENGTH_def logging_def)

lemma measurements_marker_invalid:
  assumes "data = [] \<or> (length data < MIN_PACKET_LENGTH \<and> data ! 0 = 0xE9)"
  shows "measurements (snd (handle_notification data st)) = measurements st"
  using assms
  by (auto simp add: handle_notification_def index_bytes_def parse_invalid Let_def logging_def)

lemma measurements_attach:
  assumes "data ! 0 \<noteq> 0xE9" and "3 \<le> length data" and "measurements st \<noteq> []"
  shows "measurements (snd (handle_notification data st)) =
     butlast (measurements st) @
       [(last (measurements st))\<lparr>pr := Some \<lparr>smax = uint (data ! 0 AND 0x7F),
           smin = uint (data ! 1 AND 0x7F), savg = uint (data ! 2 AND 0x7F)\<rparr>\<rparr>]"
  using assms
  by (auto simp add: handle_notification_def index_bytes_def attach_pr_def Let_def logging_def
      masked_def)

lemma measurements_ignored:
  assumes "data \<noteq> []" and "data ! 0 \<noteq> 0xE9" and "length data < 3 \<or> measurements st = []"
  shows "measurements (snd (handle_notification data st)) = measurements st"
  using assms
  by (auto simp add: handle_notification_def index_bytes_def attach_pr_def Let_def logging_def)

text \<open>The three things a notification can do to the list.\<close>

lemma handle_notification_cases:
  obtains (unchanged) "measurements (snd (handle_notification data st)) = measurements st"
  | (appended) m where "measurements (snd (handle_notification data st)) = measurements st @ [m]"
  | (attached) v where "measurements st \<noteq> []"
      "measurements (snd (handle_notification data st)) =
         butlast (measurements st) @ [(last (measurements st))\<lparr>pr := Some v\<rparr>]"
proof (cases "data = []")
  case True
  then show ?thesis using measurements_marker_invalid [of data st] unchanged by simp
next
  case ne: False
  show ?thesis
  proof (cases "data ! 0 = 0xE9")
    case True
    show ?thesis
    proof (cases "MIN_PACKET_LENGTH \<le> length data")
      case True
      with \<open>data ! 0 = 0xE9\<close> measurements_marker_valid [of data st] appended
      show ?thesis by blast
    next
      case False
      with \<open>data ! 0 = 0xE9\<close> measurements_marker_invalid [of data st] unchanged
      show ?thesis by simp
    qed
  next
    case False
    show ?thesis
    proof (cases "3 \<le> length data \<and> measurements st \<noteq> []")
      case True
      with False measurements_attach [of data st] attached show ?thesis by blast
    next
      case False
      with ne \<open>data ! 0 \<noteq> 0xE9\<close> measurements_ignored [of data st] unchanged show ?thesis
        by (auto simp add: not_le)
    qed
  qed
qed

lemma prefix_kept:
  "take (length (measurements st) - 1) (measurements (snd (handle_notification data st))) =
     butlast (measurements st)"
  by (cases rule: handle_notification_cases [of data st]) (simp_all add: butlast_conv_take)

text \<open>
  Outside the attaching branch (an empty session, fewer than three bytes, or the marker
  as first byte) every record already present is left as it is.
\<close>

lemma records_kept_without_attach:
  assumes "measurements st = [] \<or> length data < 3 \<or> data ! 0 = 0xE9"
  shows "take (length (measurements st)) (measurements (snd (handle_notification data st))) =
     measurements st"
proof (cases "data = []")
  case True
  then show ?thesis by (simp add: measurements_marker_invalid)
next
  case ne: False
  show ?thesis
  proof (cases "data ! 0 = 0xE9")
    case True
    show ?thesis
    proof (cases "MIN_PACKET_LENGTH \<le> length data")
      case True
      with \<open>data ! 0 = 0xE9\<close> measurements_marker_valid [of data st]
      show ?thesis by auto
    next
      case False
      with \<open>data ! 0 = 0xE9\<close> show ?thesis by (simp add: measurements_marker_invalid)
    qed
  next
    case False
    with assms have "length data < 3 \<or> measurements st = []" by auto
    with ne False show ?thesis by (simp add: measurements_ignored)
  qed
qed

subsection \<open>Streams of notifications\<close>

lemma handle_notifications_step:
  "fst (handle_notification d st) = Inr () \<Longrightarrow>
   handle_notifications (d # ds) st = handle_notifications ds (snd (handle_notification d st))"
  by (cases "handle_notification d st") auto

lemma handle_notifications_two:
  assumes "d1 \<noteq> []" and "d2 \<noteq> []"
  shows "handle_notifications [d1, d2] st =
     (Inr (), snd (handle_notification d2 (snd (handle_notification d1 st))))"
  using assms
  by (simp add: handle_notifications_step handle_notification_returns
      del: handle_notifications.simps(2))

section \<open>The claims\<close>

subsection \<open>Notifications that raise\<close>

text \<open>
  C1. The claim is that a payload of any length, the empty one included, is processed
  without an exception. On the empty \<open>bytearray\<close> the test \<open>data[0] == 0xe9\<close> raises
  IndexError, outside the \<open>try\<close>: the payload has been logged and recorded by then, and
  the exception leaves \<open>handle_notification\<close>.
\<close>

theorem handle_notification_empty_buffer_raises:
  "handle_notification [] st =
     (Inl IndexError,
      st\<lparr>raw_data := raw_data st @ [[]], log := log st @ [Debug_Received []]\<rparr>)"
  by (simp add: handle_notification_def index_bytes_def hex_def logging_def)

subsection \<open>Selecting the latest measurement\<close>

text \<open>
  C2. The claim is that the record with the greatest timestamp is selected. With two
  records or more, \<open>max\<close> compares the \<open>end_time\<close> dicts of the first two with \<open>>\<close>,
  which raises TypeError: no record is selected, whatever the timestamps are.
\<close>

theorem latest_of_two_records_raises:
  "latest (r1 # r2 # rest) = Inl TypeError \<and>
   main_report (st\<lparr>measurements := r1 # r2 # rest\<rparr>) =
     (Inl TypeError, st\<lparr>measurements := r1 # r2 # rest\<rparr>)"
  by (simp add: main_report_def latest_def py_max_def dict_gt_def)

text \<open>A single record is selected with no comparison.\<close>

lemma latest_single: "latest [m] = Inr m"
  by (simp add: latest_def py_max_def)

subsection \<open>Validation\<close>

text \<open>
  C3. \<open>parse\<close> accepts a buffer if and only if it has at least 23 bytes and its first
  byte is 0xE9. A buffer that fails the test is rejected, and handling it appends no
  record: the list of measurements keeps its length, in every state.
\<close>

theorem validator_classification:
  "((\<exists>m. fst (parse b st) = Inr (Some m)) \<longleftrightarrow> (23 \<le> length b \<and> b ! 0 = 0xE9)) \<and>
   (length b < 23 \<or> b ! 0 \<noteq> 0xE9 \<longrightarrow>
      fst (parse b st) = Inr None \<and>
      length (measurements (snd (handle_notification b st))) = length (measurements st))"
proof (cases "23 \<le> length b \<and> b ! 0 = 0xE9")
  case True
  then show ?thesis by (simp add: parse_valid MIN_PACKET_LENGTH_def)
next
  case False
  then have inv: "length b < MIN_PACKET_LENGTH \<or> b ! 0 \<noteq> 0xE9"
    by (auto simp add: MIN_PACKET_LENGTH_def)
  have "length (measurements (snd (handle_notification b st))) = length (measurements st)"
  proof (cases "b = [] \<or> b ! 0 = 0xE9")
    case True
    with inv have "b = [] \<or> (length b < MIN_PACKET_LENGTH \<and> b ! 0 = 0xE9)" by auto
    then show ?thesis by (simp only: measurements_marker_invalid)
  next
    case False
    then show ?thesis
      by (cases "3 \<le> length b \<and> measurements st \<noteq> []")
         (auto simp add: measurements_attach measurements_ignored not_le)
  qed
  with False inv show ?thesis by (simp add: parse_invalid)
qed

theorem validator_classification_witness:
  "length [0xE9, 0x01 :: byte] < 23 \<and>
   fst (parse [0xE9, 0x01] init_state) = Inr None \<and>
   length (measurements (snd (handle_notification [0xE9, 0x01] init_state))) =
     length (measurements init_state)"
  using validator_classification [of "[0xE9, 0x01]" init_state] by simp

subsection \<open>Attaching the pulse rate\<close>

text \<open>
  C4, as stated: a pulse rate, once attached, is never overwritten. It fails: a second
  buffer of three bytes replaces the pulse rate the first one stored.
\<close>

theorem pulse_rate_overwritten_counterexample:
  "map pr (measurements (snd (handle_notifications
       [example_measurement, [0x50, 0x40, 0x46]] init_state))) =
     [Some \<lparr>smax = 80, smin = 64, savg = 70\<rparr>] \<and>
   map pr (measurements (snd (handle_notifications
       [example_measurement, [0x50, 0x40, 0x46], [0x51, 0x41, 0x47]] init_state))) =
     [Some \<lparr>smax = 81, smin = 65, savg = 71\<rparr>]"
  by code_simp

text \<open>
  C4, amended. The pulse rate of a record can change only while that record is the most
  recently appended one, and only through a buffer of at least three bytes whose first
  byte is not 0xE9: such a buffer, handled while the session is not empty, stores its
  three masked bytes as the pulse rate of the most recently appended record, whatever
  that record held before. Every other buffer (empty, shorter than three bytes, or
  starting with 0xE9), and every buffer handled while the session is empty, leaves every
  record already in the session as it is, the pulse rate of the most recent one
  included. The pulse rate of every record before the most
  recent one is never modified.
\<close>

theorem pulse_rate_written_to_last_record:
  "(measurements st \<noteq> [] \<and> 3 \<le> length data \<and> data ! 0 \<noteq> 0xE9 \<longrightarrow>
      measurements (snd (handle_notification data st)) =
        butlast (measurements st) @
          [(last (measurements st))\<lparr>pr := Some \<lparr>smax = uint (data ! 0 AND 0x7F),
             smin = uint (data ! 1 AND 0x7F), savg = uint (data ! 2 AND 0x7F)\<rparr>\<rparr>]) \<and>
   (measurements st = [] \<or> length data < 3 \<or> data ! 0 = 0xE9 \<longrightarrow>
      take (length (measurements st)) (measurements (snd (handle_notification data st))) =
        measurements st \<and>
      map pr (take (length (measurements st)) (measurements (snd (handle_notification data st)))) =
        map pr (measurements st)) \<and>
   map pr (take (length (measurements st) - 1) (measurements (snd (handle_notification data st)))) =
     map pr (butlast (measurements st))"
proof (intro conjI impI)
  assume "measurements st \<noteq> [] \<and> 3 \<le> length data \<and> data ! 0 \<noteq> 0xE9"
  then show "measurements (snd (handle_notification data st)) =
        butlast (measurements st) @
          [(last (measurements st))\<lparr>pr := Some \<lparr>smax = uint (data ! 0 AND 0x7F),
             smin = uint (data ! 1 AND 0x7F), savg = uint (data ! 2 AND 0x7F)\<rparr>\<rparr>]"
    by (simp add: measurements_attach)
next
  assume "measurements st = [] \<or> length data < 3 \<or> data ! 0 = 0xE9"
  then show kept: "take (length (measurements st)) (measurements (snd (handle_notification data st))) =
        measurements st"
    by (rule records_kept_without_attach)
  then show "map pr (take (length (measurements st))
      (measurements (snd (handle_notification data st)))) = map pr (measurements st)"
    by (simp only:)
next
  have "take (length (measurements st) - 1) (measurements (snd (handle_notification data st))) =
     butlast (measurements st)"
    by (rule prefix_kept)
  then show "map pr (take (length (measurements st) - 1)
      (measurements (snd (handle_notification data st)))) = map pr (butlast (measurements st))"
    by (simp only:)
qed

theorem pulse_rate_written_to_last_record_witness:
  "(measurements example_session \<noteq> [] \<and> 3 \<le> length [0x51, 0x41, 0x47 :: byte] \<and>
    [0x51, 0x41, 0x47 :: byte] ! 0 \<noteq> 0xE9 \<and>
    map pr (measurements (snd (handle_notification [0x51, 0x41, 0x47] example_session))) =
      [Some \<lparr>smax = 80, smin = 64, savg = 70\<rparr>, Some \<lparr>smax = 81, smin = 65, savg = 71\<rparr>]) \<and>
   (length [0x51, 0x41 :: byte] < 3 \<and>
    map pr (take 2 (measurements (snd (handle_notification [0x51, 0x41] example_session)))) =
      [Some \<lparr>smax = 80, smin = 64, savg = 70\<rparr>, Some \<lparr>smax = 82, smin = 66, savg = 72\<rparr>]) \<and>
   (example_measurement ! 0 = 0xE9 \<and>
    map pr (take 2 (measurements (snd (handle_notification example_measurement example_session)))) =
      [Some \<lparr>smax = 80, smin = 64, savg = 70\<rparr>, Some \<lparr>smax = 82, smin = 66, savg = 72\<rparr>])"
proof (intro conjI)
  show "measurements example_session \<noteq> []" by (simp add: example_session_def)
  show "3 \<le> length [0x51, 0x41, 0x47 :: byte]" by simp
  show "[0x51, 0x41, 0x47 :: byte] ! 0 \<noteq> 0xE9" by simp
  show "map pr (measurements (snd (handle_notification [0x51, 0x41, 0x47] example_session))) =
      [Some \<lparr>smax = 80, smin = 64, savg = 70\<rparr>, Some \<lparr>smax = 81, smin = 65, savg = 71\<rparr>]"
    using pulse_rate_written_to_last_record [of example_session "[0x51, 0x41, 0x47]"]
    by (simp add: example_session_def)
  show "length [0x51, 0x41 :: byte] < 3" by simp
  show "map pr (take 2 (measurements (snd (handle_notification [0x51, 0x41] example_session)))) =
      [Some \<lparr>smax = 80, smin = 64, savg = 70\<rparr>, Some \<lparr>smax = 82, smin = 66, savg = 72\<rparr>]"
    using pulse_rate_written_to_last_record [of example_session "[0x51, 0x41]"]
    by (simp add: example_session_def numeral_2_eq_2)
  show m: "example_measurement ! 0 = 0xE9" by (simp add: example_measurement_def)
  show "map pr (take 2 (measurements (snd (handle_notification example_measurement example_session)))) =
      [Some \<lparr>smax = 80, smin = 64, savg = 70\<rparr>, Some \<lparr>smax = 82, smin = 66, savg = 72\<rparr>]"
    using pulse_rate_written_to_last_record [of example_session example_measurement] m
    by (simp add: example_session_def numeral_2_eq_2)
qed

text \<open>
  C5. The claim is that a two-byte buffer after a measurement leaves the record without
  a pulse rate and emits the warning for incomplete pulse-rate data. The record is left
  as it is, but the only log entries are the two debug lines: the warning sits in the
  \<open>except\<close> clause of a \<open>try\<close> that is entered only for three bytes or more.
\<close>

theorem short_buffer_emits_no_warning:
  "handle_notifications [example_measurement, [0x50, 0x40]] init_state =
     (Inr (),
      \<lparr>measurements =
         [\<lparr>packet = 1,
           end_time = \<lparr>year = 2025, month = 3, day = 10, hour = 12, minute = 30, second = 45\<rparr>,
           spo2 = \<lparr>smax = 98, smin = 90, savg = 94\<rparr>,
           pr = None\<rparr>],
       raw_data = [''e90100000000000019030a0c1e2d000000625a5e000000'', ''5040''],
       log = [Debug_Received ''e90100000000000019030a0c1e2d000000625a5e000000'',
              Debug_Received ''5040'']\<rparr>)"
  by code_simp

text \<open>No notification logs that warning: the \<open>try\<close> body cannot raise where it is entered.\<close>

lemma pr_incomplete_warning_never_logged:
  "Warning_PR_Incomplete \<in> set (log (snd (handle_notification data st))) \<longleftrightarrow>
   Warning_PR_Incomplete \<in> set (log st)"
  by (auto simp add: handle_notification_def index_bytes_def attach_pr_def parse_def Let_def
      logging_def split: sum.splits option.splits prod.splits error.splits if_splits)

subsection \<open>Decoding a measurement packet\<close>

text \<open>
  C6. On a valid buffer \<open>parse\<close> returns the record whose fields are the masked bytes of
  the extraction table, with no pulse rate. For the buffer with byte 1 equal to 0x01,
  bytes 8 to 13 equal to 0x19, 0x03, 0x0A, 0x0C, 0x1E, 0x2D and bytes 17 to 19 equal to
  0x62, 0x5A, 0x5E, this is packet 1, end time 2025-03-10 12:30:45 and SpO2 98, 90, 94.
\<close>

theorem decoder_fields:
  "23 \<le> length b \<and> b ! 0 = 0xE9 \<longrightarrow>
     fst (parse b st) =
       Inr (Some \<lparr>packet = uint (b ! 1 AND 0x0F),
                  end_time = \<lparr>year = 2000 + uint (b ! 8 AND 0x7F), month = uint (b ! 9 AND 0x0F),
                     day = uint (b ! 10 AND 0x1F), hour = uint (b ! 11 AND 0x1F),
                     minute = uint (b ! 12 AND 0x3F), second = uint (b ! 13 AND 0x3F)\<rparr>,
                  spo2 = \<lparr>smax = uint (b ! 17 AND 0x7F), smin = uint (b ! 18 AND 0x7F),
                     savg = uint (b ! 19 AND 0x7F)\<rparr>,
                  pr = None\<rparr>) \<and>
     (b ! 1 = 0x01 \<and> slice 8 14 b = [0x19, 0x03, 0x0A, 0x0C, 0x1E, 0x2D] \<and>
      slice 17 20 b = [0x62, 0x5A, 0x5E] \<longrightarrow>
        fst (parse b st) =
          Inr (Some \<lparr>packet = 1,
                     end_time = \<lparr>year = 2025, month = 3, day = 10, hour = 12, minute = 30, second = 45\<rparr>,
                     spo2 = \<lparr>smax = 98, smin = 90, savg = 94\<rparr>,
                     pr = None\<rparr>))"
proof (intro impI conjI)
  assume v: "23 \<le> length b \<and> b ! 0 = 0xE9"
  then show general: "fst (parse b st) =
       Inr (Some \<lparr>packet = uint (b ! 1 AND 0x0F),
                  end_time = \<lparr>year = 2000 + uint (b ! 8 AND 0x7F), month = uint (b ! 9 AND 0x0F),
                     day = uint (b ! 10 AND 0x1F), hour = uint (b ! 11 AND 0x1F),
                     minute = uint (b ! 12 AND 0x3F), second = uint (b ! 13 AND 0x3F)\<rparr>,
                  spo2 = \<lparr>smax = uint (b ! 17 AND 0x7F), smin = uint (b ! 18 AND 0x7F),
                     savg = uint (b ! 19 AND 0x7F)\<rparr>,
                  pr = None\<rparr>)"
    by (simp add: parse_valid MIN_PACKET_LENGTH_def masked_def)
  assume s: "b ! 1 = 0x01 \<and> slice 8 14 b = [0x19, 0x03, 0x0A, 0x0C, 0x1E, 0x2D] \<and>
      slice 17 20 b = [0x62, 0x5A, 0x5E]"
  from v have "\<forall>i<6. slice 8 14 b ! i = b ! (8 + i)" and "\<forall>i<3. slice 17 20 b ! i = b ! (17 + i)"
    by (simp_all add: slice_nth)
  then have "slice 8 14 b ! 0 = b ! 8" "slice 8 14 b ! 1 = b ! 9" "slice 8 14 b ! 2 = b ! 10"
    "slice 8 14 b ! 3 = b ! 11" "slice 8 14 b ! 4 = b ! 12" "slice 8 14 b ! 5 = b ! 13"
    "slice 17 20 b ! 0 = b ! 17" "slice 17 20 b ! 1 = b ! 18" "slice 17 20 b ! 2 = b ! 19"
    by force+
  with s have "b ! 1 = 1" "b ! 8 = 0x19" "b ! 9 = 0x03" "b ! 10 = 0x0A" "b ! 11 = 0x0C"
    "b ! 12 = 0x1E" "b ! 13 = 0x2D" "b ! 17 = 0x62" "b ! 18 = 0x5A" "b ! 19 = 0x5E"
    by simp_all
  with general show "fst (parse b st) =
          Inr (Some \<lparr>packet = 1,
                     end_time = \<lparr>year = 2025, month = 3, day = 10, hour = 12, minute = 30, second = 45\<rparr>,
                     spo2 = \<lparr>smax = 98, smin = 90, savg = 94\<rparr>,
                     pr = None\<rparr>)"
    by simp
qed

theorem decoder_fields_witness:
  "23 \<le> length example_measurement \<and> example_measurement ! 0 = 0xE9 \<and>
   example_measurement ! 1 = 0x01 \<and>
   slice 8 14 example_measurement = [0x19, 0x03, 0x0A, 0x0C, 0x1E, 0x2D] \<and>
   slice 17 20 example_measurement = [0x62, 0x5A, 0x5E] \<and>
   fst (parse example_measurement init_state) =
     Inr (Some \<lparr>packet = 1,
                end_time = \<lparr>year = 2025, month = 3, day = 10, hour = 12, minute = 30, second = 45\<rparr>,
                spo2 = \<lparr>smax = 98, smin = 90, savg = 94\<rparr>,
                pr = None\<rparr>)"
proof -
  have h: "23 \<le> length example_measurement \<and> example_measurement ! 0 = 0xE9"
    by (simp add: example_measurement_def)
  have g: "example_measurement ! 1 = 0x01 \<and>
      slice 8 14 example_measurement = [0x19, 0x03, 0x0A, 0x0C, 0x1E, 0x2D] \<and>
      slice 17 20 example_measurement = [0x62, 0x5A, 0x5E]"
    by (simp add: example_measurement_def slice_def)
  from decoder_fields [of example_measurement init_state] h g show ?thesis by blast
qed

subsection \<open>Streams\<close>

text \<open>
  C7. From a session with no record, a valid measurement packet followed by the buffer
  0x50, 0x40, 0x46 leaves exactly one record, whose pulse rate is max 80, min 64,
  avg 70; neither notification raises.
\<close>

theorem measurement_then_pulse_rate:
  "23 \<le> length b \<and> b ! 0 = 0xE9 \<and> measurements st = [] \<longrightarrow>
     fst (handle_notifications [b, [0x50, 0x40, 0x46]] st) = Inr () \<and>
     length (measurements (snd (handle_notifications [b, [0x50, 0x40, 0x46]] st))) = 1 \<and>
     map pr (measurements (snd (handle_notifications [b, [0x50, 0x40, 0x46]] st))) =
       [Some \<lparr>smax = 80, smin = 64, savg = 70\<rparr>]"
proof
  assume a: "23 \<le> length b \<and> b ! 0 = 0xE9 \<and> measurements st = []"
  then have ne: "b \<noteq> []" by auto
  from a obtain m where m: "measurements (snd (handle_notification b st)) = [m]"
    using measurements_marker_valid [of b st] by (auto simp add: MIN_PACKET_LENGTH_def)
  have "measurements (snd (handle_notification [0x50, 0x40, 0x46] (snd (handle_notification b st)))) =
     [m\<lparr>pr := Some \<lparr>smax = 80, smin = 64, savg = 70\<rparr>\<rparr>]"
    by (simp add: measurements_attach m)
  with ne show "fst (handle_notifications [b, [0x50, 0x40, 0x46]] st) = Inr () \<and>
     length (measurements (snd (handle_notifications [b, [0x50, 0x40, 0x46]] st))) = 1 \<and>
     map pr (measurements (snd (handle_notifications [b, [0x50, 0x40, 0x46]] st))) =
       [Some \<lparr>smax = 80, smin = 64, savg = 70\<rparr>]"
    by (simp add: handle_notifications_two del: handle_notifications.simps)
qed

theorem measurement_then_pulse_rate_witness:
  "23 \<le> length example_measurement \<and> example_measurement ! 0 = 0xE9 \<and>
   measurements init_state = [] \<and>
   fst (handle_notifications [example_measurement, [0x50, 0x40, 0x46]] init_state) = Inr () \<and>
   length (measurements (snd (handle_notifications
     [example_measurement, [0x50, 0x40, 0x46]] init_state))) = 1 \<and>
   map pr (measurements (snd (handle_notifications
     [example_measurement, [0x50, 0x40, 0x46]] init_state))) =
       [Some \<lparr>smax = 80, smin = 64, savg = 70\<rparr>]"
proof -
  have h: "23 \<le> length example_measurement \<and> example_measurement ! 0 = 0xE9 \<and>
     measurements init_state = []"
    by (simp add: example_measurement_def init_state_def)
  from measurement_then_pulse_rate [of example_measurement init_state] h show ?thesis by blast
qed

text \<open>
  C8. From a session with no record, two valid measurement packets in a row leave
  exactly two records, the decoded packets in arrival order; the first has no pulse
  rate, and the second packet is handled without an exception.
\<close>

theorem two_measurements_two_records:
  "23 \<le> length b1 \<and> b1 ! 0 = 0xE9 \<and> 23 \<le> length b2 \<and> b2 ! 0 = 0xE9 \<and>
   measurements st = [] \<longrightarrow>
     fst (handle_notifications [b1, b2] st) = Inr () \<and>
     length (measurements (snd (handle_notifications [b1, b2] st))) = 2 \<and>
     pr (measurements (snd (handle_notifications [b1, b2] st)) ! 0) = None \<and>
     (\<exists>m1 m2. fst (parse b1 st) = Inr (Some m1) \<and> fst (parse b2 st) = Inr (Some m2) \<and>
        measurements (snd (handle_notifications [b1, b2] st)) = [m1, m2])"
proof
  assume a: "23 \<le> length b1 \<and> b1 ! 0 = 0xE9 \<and> 23 \<le> length b2 \<and> b2 ! 0 = 0xE9 \<and>
     measurements st = []"
  then have ne: "b1 \<noteq> []" "b2 \<noteq> []" by auto
  let ?st1 = "snd (handle_notification b1 st)"
  from a obtain m1 where m1: "fst (parse b1 st) = Inr (Some m1)" "pr m1 = None"
      "measurements ?st1 = [m1]"
    using measurements_marker_valid [of b1 st] by (auto simp add: MIN_PACKET_LENGTH_def)
  from a obtain m2 where m2: "fst (parse b2 ?st1) = Inr (Some m2)" "pr m2 = None"
      "measurements (snd (handle_notification b2 ?st1)) = measurements ?st1 @ [m2]"
    using measurements_marker_valid [of b2 ?st1] by (auto simp add: MIN_PACKET_LENGTH_def)
  from a m2(1) have "fst (parse b2 st) = Inr (Some m2)"
    by (simp add: parse_valid MIN_PACKET_LENGTH_def)
  with ne m1 m2 show "fst (handle_notifications [b1, b2] st) = Inr () \<and>
     length (measurements (snd (handle_notifications [b1, b2] st))) = 2 \<and>
     pr (measurements (snd (handle_notifications [b1, b2] st)) ! 0) = None \<and>
     (\<exists>m1 m2. fst (parse b1 st) = Inr (Some m1) \<and> fst (parse b2 st) = Inr (Some m2) \<and>
        measurements (snd (handle_notifications [b1, b2] st)) = [m1, m2])"
    by (simp add: handle_notifications_two del: handle_notifications.simps)
qed

theorem two_measurements_two_records_witness:
  "23 \<le> length example_measurement \<and> example_measurement ! 0 = 0xE9 \<and>
   measurements init_state = [] \<and>
   fst (handle_notifications [example_measurement, example_measurement] init_state) = Inr () \<and>
   length (measurements (snd (handle_notifications
     [example_measurement, example_measurement] init_state))) = 2 \<and>
   pr (measurements (snd (handle_notifications
     [example_measurement, example_measurement] init_state)) ! 0) = None"
proof -
  have h: "23 \<le> length example_measurement \<and> example_measurement ! 0 = 0xE9 \<and>
     23 \<le> length example_measurement \<and> example_measurement ! 0 = 0xE9 \<and>
     measurements init_state = []"
    by (simp add: example_measurement_def init_state_def)
  from two_measurements_two_records [of example_measurement example_measurement init_state] h
  show ?thesis by blast
qed

subsection \<open>The empty session\<close>

text \<open>
  C9. With no measurement recorded, the end of \<open>main\<close> does not call \<open>max\<close>: it logs
  that no measurements were received and returns normally.
\<close>

theorem empty_session_no_data:
  "measurements st = [] \<longrightarrow> main_report st = (Inr (), logging Info_No_Measurements st)"
  by (simp add: main_report_def)

theorem empty_session_no_data_witness:
  "measurements init_state = [] \<and>
   main_report init_state =
     (Inr (), \<lparr>measurements = [], raw_data = [], log = [Info_No_Measurements]\<rparr>)"
  using empty_session_no_data [of init_state] by (simp add: init_state_def logging_def)

subsection \<open>What a notification leaves alone\<close>

text \<open>
  C10. Handling a notification never removes or reorders a record: the list does not get
  shorter, every record before the most recent one is unchanged, and the packet number,
  end time and SpO2 values of every record already present, the most recent one
  included, keep their values. Only the pulse rate of the most recent record can change.
\<close>

theorem handle_notification_frame:
  "length (measurements st) \<le> length (measurements (snd (handle_notification data st))) \<and>
   take (length (measurements st) - 1) (measurements (snd (handle_notification data st))) =
     butlast (measurements st) \<and>
   map packet (take (length (measurements st)) (measurements (snd (handle_notification data st)))) =
     map packet (measurements st) \<and>
   map end_time (take (length (measurements st)) (measurements (snd (handle_notification data st)))) =
     map end_time (measurements st) \<and>
   map spo2 (take (length (measurements st)) (measurements (snd (handle_notification data st)))) =
     map spo2 (measurements st)"
proof (cases rule: handle_notification_cases [of data st])
  case unchanged
  then show ?thesis by (simp add: butlast_conv_take)
next
  case (appended m)
  then show ?thesis by (simp add: butlast_conv_take)
next
  case (attached v)
  from attached(1) obtain xs x where ms: "measurements st = xs @ [x]"
    by (metis append_butlast_last_id)
  with attached(2) show ?thesis by simp
qed

theorem handle_notification_frame_witness:
  "length (measurements example_session) = 2 \<and>
   take 1 (measurements (snd (handle_notification [0x51, 0x41, 0x47] example_session))) =
     butlast (measurements example_session) \<and>
   map spo2 (take 2 (measurements (snd (handle_notification [0x51, 0x41, 0x47] example_session)))) =
     map spo2 (measurements example_session)"
  using handle_notification_frame [of example_session "[0x51, 0x41, 0x47]"]
  by (simp add: example_session_def numeral_2_eq_2)

end
